theory Spec2Isabelle
  imports Main "HOL-Library.Word"
begin

section \<open>The SSH connection handle of \<open>ssh_utils.py\<close>\<close>

text \<open>
  \<open>ssh_utils.py\<close> holds one class, \<open>SSHClient\<close>, a wrapper around the client of the
  paramiko library. The class is modelled by a record of its attributes, its methods by
  functions that take the handle and return the updated handle together with the value
  returned or the exception raised. The paramiko library and the remote host are not part
  of the file: they are a parameter of every method, an environment that answers each
  library call from the history of the library calls made so far.
\<close>

subsection \<open>Python values\<close>

text \<open>
  Exceptions. \<open>AuthenticationException\<close> is a subclass of \<open>SSHException\<close> in paramiko, so
  \<open>except SSHException\<close> catches both; every other class is caught by
  \<open>except Exception\<close> only. \<open>str(e)\<close> is the message. Exceptions outside
  \<open>Exception\<close> (a keyboard interrupt, the exit of the interpreter) are not modelled.
\<close>

datatype exn_class =
    AuthenticationException
  | SSHException
  | ValueError
  | UnicodeDecodeError
  | AttributeError
  | OtherException

datatype exn = Exn exn_class string

fun exn_class_of :: "exn \<Rightarrow> exn_class" where
  "exn_class_of (Exn c m) = c"

fun str_exn :: "exn \<Rightarrow> string" where
  "str_exn (Exn c m) = m"

definition is_AuthenticationException :: "exn \<Rightarrow> bool" where
  "is_AuthenticationException e = (exn_class_of e = AuthenticationException)"

definition is_SSHException :: "exn \<Rightarrow> bool" where
  "is_SSHException e =
     (exn_class_of e = SSHException \<or> exn_class_of e = AuthenticationException)"

text \<open>
  The value of an \<open>and\<close> chain is one of its operands: a boolean or \<open>None\<close> here.
\<close>

datatype pyval = PyBool bool | PyNone

fun truthy :: "pyval \<Rightarrow> bool" where
  "truthy (PyBool b) = b"
| "truthy PyNone = False"

text \<open>Truth value of an optional string: \<open>None\<close> and the empty string are false.\<close>

fun provided :: "string option \<Rightarrow> bool" where
  "provided None = False"
| "provided (Some v) = (v \<noteq> [])"

text \<open>\<open>str(n)\<close> of an integer, as an f-string renders it.\<close>

definition digit_char :: "nat \<Rightarrow> char" where
  "digit_char d = ''0123456789'' ! d"

fun str_nat :: "nat \<Rightarrow> string" where
  "str_nat n = (if n < 10 then [digit_char n] else str_nat (n div 10) @ [digit_char (n mod 10)])"

definition str_int :: "int \<Rightarrow> string" where
  "str_int i = (if i < 0 then CHR ''-'' # str_nat (nat (- i)) else str_nat (nat i))"

subsection \<open>Bytes and text\<close>

text \<open>
  \<open>stdout.read()\<close> gives bytes; \<open>.decode('utf-8')\<close> gives a string of code points or
  raises \<open>UnicodeDecodeError\<close> (the strict decoder: no overlong forms, no surrogates,
  nothing above U+10FFFF); \<open>.strip()\<close> removes the leading and trailing characters
  for which \<open>str.isspace\<close> holds.
\<close>

type_synonym byte = "8 word"
type_synonym ustring = "nat list"

definition continuation :: "nat \<Rightarrow> bool" where
  "continuation b = (128 \<le> b \<and> b < 192)"

fun utf8 :: "nat list \<Rightarrow> ustring option" where
  "utf8 [] = Some []"
| "utf8 (b0 # bs) =
     (if b0 < 128 then map_option ((#) b0) (utf8 bs)
      else if 194 \<le> b0 \<and> b0 < 224 then
        (case bs of
           b1 # r \<Rightarrow>
             if continuation b1
             then map_option ((#) ((b0 - 192) * 64 + (b1 - 128))) (utf8 r)
             else None
         | _ \<Rightarrow> None)
      else if 224 \<le> b0 \<and> b0 < 240 then
        (case bs of
           b1 # b2 # r \<Rightarrow>
             if (if b0 = 224 then 160 else 128) \<le> b1 \<and>
                b1 < (if b0 = 237 then 160 else 192) \<and> continuation b2
             then map_option
                    ((#) ((b0 - 224) * 4096 + (b1 - 128) * 64 + (b2 - 128))) (utf8 r)
             else None
         | _ \<Rightarrow> None)
      else if 240 \<le> b0 \<and> b0 < 245 then
        (case bs of
           b1 # b2 # b3 # r \<Rightarrow>
             if (if b0 = 240 then 144 else 128) \<le> b1 \<and>
                b1 < (if b0 = 244 then 144 else 192) \<and>
                continuation b2 \<and> continuation b3
             then map_option
                    ((#) ((b0 - 240) * 262144 + (b1 - 128) * 4096
                          + (b2 - 128) * 64 + (b3 - 128))) (utf8 r)
             else None
         | _ \<Rightarrow> None)
      else None)"

definition decode :: "byte list \<Rightarrow> exn + ustring" where
  "decode bs =
     (case utf8 (map unat bs) of
        None \<Rightarrow> Inl (Exn UnicodeDecodeError ''utf-8 codec cannot decode bytes'')
      | Some t \<Rightarrow> Inr t)"

text \<open>
  The UTF-8 encoding of one code point, \<open>chr(c).encode('utf-8')\<close>: what the decoder is
  measured against.
\<close>

definition encode_char :: "nat \<Rightarrow> nat list" where
  "encode_char c =
     (if c < 128 then [c]
      else if c < 2048 then [192 + c div 64, 128 + c mod 64]
      else if c < 65536 then [224 + c div 4096, 128 + c div 64 mod 64, 128 + c mod 64]
      else [240 + c div 262144, 128 + c div 4096 mod 64, 128 + c div 64 mod 64,
            128 + c mod 64])"

definition isspace :: "nat \<Rightarrow> bool" where
  "isspace c =
     ((9 \<le> c \<and> c \<le> 13) \<or> (28 \<le> c \<and> c \<le> 32) \<or> c = 133 \<or> c = 160 \<or> c = 5760
      \<or> (8192 \<le> c \<and> c \<le> 8202) \<or> c = 8232 \<or> c = 8233 \<or> c = 8239 \<or> c = 8287
      \<or> c = 12288)"

definition strip :: "ustring \<Rightarrow> ustring" where
  "strip t = rev (dropWhile isspace (rev (dropWhile isspace t)))"

subsection \<open>The library and the remote host\<close>

text \<open>
  The calls the class makes into paramiko, in the order of the source:
  \<open>paramiko.SSHClient()\<close>, \<open>set_missing_host_key_policy\<close>,
  \<open>RSAKey.from_private_key_file\<close>, \<open>client.connect\<close>, \<open>client.exec_command\<close>,
  \<open>stdout.channel.recv_exit_status\<close>, \<open>stdout.read\<close>, \<open>stderr.read\<close> and
  \<open>client.close\<close>.
\<close>

datatype host_key_policy = RejectPolicy | AutoAddPolicy

datatype credential = Password string | PKey string

record connect_args =
  hostname :: string
  username :: string
  auth :: credential
  conn_port :: int
  conn_timeout :: int

datatype lib_call =
    NewClient
  | SetPolicy host_key_policy
  | LoadKey string
  | Connect host_key_policy connect_args
  | ExecCommand string int
  | RecvExitStatus
  | ReadStdout
  | ReadStderr
  | CloseClient

text \<open>
  The environment answers a call from the history of calls, the call itself last:
  whether it raises, and what it returns or leaves behind otherwise. A
  \<open>client.connect\<close> that raises may leave a transport on the client, since paramiko
  stores the transport before it authenticates.
\<close>

record env =
  raises :: "lib_call list \<Rightarrow> exn option"
  exit_status_of :: "lib_call list \<Rightarrow> int"
  bytes_of :: "lib_call list \<Rightarrow> byte list"
  transport_left :: "lib_call list \<Rightarrow> bool option"

text \<open>
  A paramiko client: its host key policy and its transport. \<open>get_transport()\<close> is
  \<open>None\<close> or a transport object, which is true as a condition; \<open>is_active()\<close> is the
  flag of the transport.
\<close>

record paramiko_client =
  policy :: host_key_policy
  transport :: "bool option"

definition new_paramiko_client :: paramiko_client where
  "new_paramiko_client = \<lparr>policy = RejectPolicy, transport = None\<rparr>"

subsection \<open>The handle\<close>

datatype level = INFO | WARNING | ERROR

text \<open>
  The attributes of \<open>SSHClient\<close>. \<open>logger\<close> holds the records written so far and
  \<open>lib_calls\<close> the history of library calls; both only grow.
\<close>

record SSHClient =
  host :: string
  user :: string
  password :: "string option"
  key_path :: "string option"
  port :: int
  logger :: "(level \<times> string) list"
  client :: "paramiko_client option"
  lib_calls :: "lib_call list"

definition init :: "string \<Rightarrow> string \<Rightarrow> string option \<Rightarrow> string option \<Rightarrow> int \<Rightarrow> SSHClient" where
  "init h u p k n =
     \<lparr>host = h, user = u, password = p, key_path = k, port = n,
      logger = [], client = None, lib_calls = []\<rparr>"

definition log_to :: "level \<Rightarrow> string \<Rightarrow> SSHClient \<Rightarrow> SSHClient" where
  "log_to l m s = s\<lparr>logger := logger s @ [(l, m)]\<rparr>"

definition call :: "lib_call \<Rightarrow> SSHClient \<Rightarrow> SSHClient" where
  "call c s = s\<lparr>lib_calls := lib_calls s @ [c]\<rparr>"

text \<open>
  \<open>is_connected\<close>: the value of
  \<open>self.client is not None and self.client.get_transport() and
  self.client.get_transport().is_active()\<close>.
\<close>

definition is_connected :: "SSHClient \<Rightarrow> pyval" where
  "is_connected s =
     (case client s of
        None \<Rightarrow> PyBool False
      | Some c \<Rightarrow> (case transport c of None \<Rightarrow> PyNone | Some a \<Rightarrow> PyBool a))"

text \<open>
  The same expression as a condition, as \<open>connect\<close> tests it and \<open>execute_command\<close>
  tests its negation.
\<close>

definition session_active :: "SSHClient \<Rightarrow> bool" where
  "session_active s =
     (case client s of
        None \<Rightarrow> False
      | Some c \<Rightarrow> (case transport c of None \<Rightarrow> False | Some a \<Rightarrow> a))"

subsection \<open>connect\<close>

definition the_connect_args :: "SSHClient \<Rightarrow> credential \<Rightarrow> connect_args" where
  "the_connect_args s cred =
     \<lparr>hostname = host s, username = user s, auth = cred,
      conn_port = port s, conn_timeout = 10\<rparr>"

text \<open>
  \<open>self.client.connect(...)\<close>: the call is made on the stored client with the policy
  it has; when it returns the client has an active transport, when it raises the client
  has what the library left.
\<close>

definition client_connect :: "env \<Rightarrow> SSHClient \<Rightarrow> credential \<Rightarrow> SSHClient \<times> (exn + unit)" where
  "client_connect E s cred =
     (case client s of
        None \<Rightarrow> (s, Inl (Exn AttributeError ''NoneType object has no attribute connect''))
      | Some c \<Rightarrow>
          let s1 = call (Connect (policy c) (the_connect_args s cred)) s in
          (case raises E (lib_calls s1) of
             Some e \<Rightarrow>
               (s1\<lparr>client := Some (c\<lparr>transport := transport_left E (lib_calls s1)\<rparr>)\<rparr>, Inl e)
           | None \<Rightarrow> (s1\<lparr>client := Some (c\<lparr>transport := Some True\<rparr>)\<rparr>, Inr ())))"

text \<open>The body of the \<open>try\<close> of \<open>connect\<close>.\<close>

definition connect_try :: "env \<Rightarrow> SSHClient \<Rightarrow> SSHClient \<times> (exn + unit)" where
  "connect_try E s =
     (let s1 = (call NewClient s)\<lparr>client := Some new_paramiko_client\<rparr>;
          s2 = (call (SetPolicy AutoAddPolicy) s1)
                 \<lparr>client := Some (new_paramiko_client\<lparr>policy := AutoAddPolicy\<rparr>)\<rparr>
      in
        if provided (password s2) then
          (case client_connect E s2 (Password (the (password s2))) of
             (s3, Inl e) \<Rightarrow> (s3, Inl e)
           | (s3, Inr u) \<Rightarrow>
               (log_to INFO (''Successfully connected to '' @ host s3 @ '' on port ''
                             @ str_int (port s3)) s3, Inr ()))
        else if provided (key_path s2) then
          (let s3 = call (LoadKey (the (key_path s2))) s2 in
           case raises E (lib_calls s3) of
             Some e \<Rightarrow> (s3, Inl e)
           | None \<Rightarrow>
               (case client_connect E s3 (PKey (the (key_path s2))) of
                  (s4, Inl e) \<Rightarrow> (s4, Inl e)
                | (s4, Inr u) \<Rightarrow>
                    (log_to INFO (''Successfully connected to '' @ host s4 @ '' on port ''
                                  @ str_int (port s4)) s4, Inr ())))
        else
          (s2, Inl (Exn ValueError
                     ''Either password or key_path must be provided for SSH connection.'')))"

text \<open>The three \<open>except\<close> clauses of \<open>connect\<close>: each logs an error and re-raises.\<close>

definition connect_except :: "SSHClient \<Rightarrow> exn \<Rightarrow> SSHClient" where
  "connect_except s e =
     (if is_AuthenticationException e then
        log_to ERROR (''Authentication failed for '' @ host s
                      @ ''. Check credentials or key file.'') s
      else if is_SSHException e then
        log_to ERROR (''SSH error while connecting to '' @ host s @ '': '' @ str_exn e) s
      else
        log_to ERROR (''Unexpected error while connecting to '' @ host s @ '': ''
                      @ str_exn e) s)"

definition connect :: "env \<Rightarrow> SSHClient \<Rightarrow> SSHClient \<times> (exn + unit)" where
  "connect E s =
     (if session_active s then
        (log_to INFO (''Already connected to '' @ host s @ ''. Reusing the connection.'') s,
         Inr ())
      else
        (case connect_try E s of
           (s1, Inr u) \<Rightarrow> (s1, Inr ())
         | (s1, Inl e) \<Rightarrow> (connect_except s1 e, Inl e)))"

subsection \<open>close\<close>

definition close :: "env \<Rightarrow> SSHClient \<Rightarrow> SSHClient \<times> (exn + unit)" where
  "close E s =
     (case client s of
        None \<Rightarrow> (s, Inr ())
      | Some c \<Rightarrow>
          let s1 = call CloseClient s in
          (case raises E (lib_calls s1) of
             None \<Rightarrow>
               ((log_to INFO (''SSH connection closed for '' @ host s1) s1)\<lparr>client := None\<rparr>,
                Inr ())
           | Some e \<Rightarrow>
               ((log_to ERROR (''Error while closing SSH connection to '' @ host s1 @ '': ''
                               @ str_exn e) s1)\<lparr>client := None\<rparr>,
                Inr ())))"

subsection \<open>execute\_command\<close>

type_synonym result = "ustring \<times> ustring \<times> int"

text \<open>The body of the \<open>try\<close> of \<open>execute_command\<close>.\<close>

definition execute_try :: "env \<Rightarrow> SSHClient \<Rightarrow> string \<Rightarrow> int \<Rightarrow> SSHClient \<times> (exn + result)" where
  "execute_try E s command timeout =
     (case client s of
        None \<Rightarrow> (s, Inl (Exn AttributeError ''NoneType object has no attribute exec_command''))
      | Some c \<Rightarrow>
          let s1 = call (ExecCommand command timeout) s in
          (case raises E (lib_calls s1) of
             Some e \<Rightarrow> (s1, Inl e)
           | None \<Rightarrow>
          let s2 = call RecvExitStatus s1 in
          (case raises E (lib_calls s2) of
             Some e \<Rightarrow> (s2, Inl e)
           | None \<Rightarrow>
          let exit_status = exit_status_of E (lib_calls s2);
              s3 = call ReadStdout s2 in
          (case raises E (lib_calls s3) of
             Some e \<Rightarrow> (s3, Inl e)
           | None \<Rightarrow>
          (case decode (bytes_of E (lib_calls s3)) of
             Inl e \<Rightarrow> (s3, Inl e)
           | Inr out \<Rightarrow>
          let output = strip out;
              s4 = call ReadStderr s3 in
          (case raises E (lib_calls s4) of
             Some e \<Rightarrow> (s4, Inl e)
           | None \<Rightarrow>
          (case decode (bytes_of E (lib_calls s4)) of
             Inl e \<Rightarrow> (s4, Inl e)
           | Inr err \<Rightarrow>
          let error = strip err in
          if exit_status = 0 then
            (log_to INFO (''Command executed successfully on '' @ host s4 @ '': ''
                          @ command) s4,
             Inr (output, error, exit_status))
          else
            (log_to WARNING (''Command execution failed on '' @ host s4
                             @ '' with exit status '' @ str_int exit_status) s4,
             Inr (output, error, exit_status)))))))))"

text \<open>
  The first statement of the method:
  \<open>if self.client is None or not (...): self.connect()\<close>.
\<close>

definition implicit_connect :: "env \<Rightarrow> SSHClient \<Rightarrow> SSHClient \<times> (exn + unit)" where
  "implicit_connect E s = (if \<not> session_active s then connect E s else (s, Inr ()))"

text \<open>
  The \<open>except Exception\<close> clause up to the recursive call: log the error, close,
  connect again.
\<close>

definition recover :: "env \<Rightarrow> SSHClient \<Rightarrow> exn \<Rightarrow> SSHClient \<times> (exn + unit)" where
  "recover E s e =
     (case close E (log_to ERROR (''Error executing command on '' @ host s @ '': ''
                                  @ str_exn e) s) of
        (s1, Inl e') \<Rightarrow> (s1, Inl e')
      | (s1, Inr u) \<Rightarrow> connect E s1)"

text \<open>
  The method. A call that never returns has the value \<open>None\<close>; the recursion limit of
  the interpreter is not modelled.
\<close>

partial_function (option) execute_command ::
  "env \<Rightarrow> SSHClient \<Rightarrow> string \<Rightarrow> int \<Rightarrow> (SSHClient \<times> (exn + result)) option" where
  "execute_command E s command timeout =
     (case implicit_connect E s of
        (s1, Inl e) \<Rightarrow> Some (s1, Inl e)
      | (s1, Inr u) \<Rightarrow>
          (case execute_try E s1 command timeout of
             (s2, Inr r) \<Rightarrow> Some (s2, Inr r)
           | (s2, Inl e) \<Rightarrow>
               if is_SSHException e then
                 Some (log_to ERROR (''SSH error while executing command on '' @ host s2
                                     @ '': '' @ str_exn e) s2, Inl e)
               else
                 (case recover E s2 e of
                    (s3, Inl e') \<Rightarrow> Some (s3, Inl e')
                  | (s3, Inr u') \<Rightarrow> execute_command E s3 command timeout)))"

subsection \<open>Handles and hosts to run the methods on\<close>

definition handle_password :: SSHClient where
  "handle_password = init ''h'' ''u'' (Some ''p'') None 22"

definition handle_key :: SSHClient where
  "handle_key = init ''h'' ''u'' None (Some ''/k'') 22"

definition handle_both :: SSHClient where
  "handle_both = init ''h'' ''u'' (Some ''p'') (Some ''/k'') 22"

definition handle_bare :: SSHClient where
  "handle_bare = init ''h'' ''u'' None None 22"

text \<open>\<open>handle_password\<close> after a \<open>connect\<close> that returned.\<close>

definition handle_connected :: SSHClient where
  "handle_connected =
     \<lparr>host = ''h'', user = ''u'', password = Some ''p'', key_path = None, port = 22,
      logger = [(INFO, ''Successfully connected to h on port 22'')],
      client = Some \<lparr>policy = AutoAddPolicy, transport = Some True\<rparr>,
      lib_calls = [NewClient, SetPolicy AutoAddPolicy,
        Connect AutoAddPolicy
          \<lparr>hostname = ''h'', username = ''u'', auth = Password ''p'',
           conn_port = 22, conn_timeout = 10\<rparr>]\<rparr>"

text \<open>A host where every call returns: exit status 0, \<open>ok\<close> and a newline on stdout.\<close>

definition fine_host :: env where
  "fine_host =
     \<lparr>raises = (\<lambda>h. None), exit_status_of = (\<lambda>h. 0),
      bytes_of = (\<lambda>h. if last h = ReadStdout then [0x6F, 0x6B, 0x0A] else []),
      transport_left = (\<lambda>h. None)\<rparr>"

text \<open>
  A host that rejects the credentials. The library has opened the transport before it
  authenticates and leaves it, still active, on the client.
\<close>

definition rejecting_host :: env where
  "rejecting_host =
     fine_host\<lparr>raises :=
       (\<lambda>h. case last h of
              Connect p a \<Rightarrow> Some (Exn AuthenticationException ''Authentication failed.'')
            | _ \<Rightarrow> None),
       transport_left := (\<lambda>h. Some True)\<rparr>"

text \<open>
  A host where the command exits with 3; stdout is two spaces, \<open>caf\<close>, U+00E9 and a
  newline, stderr is a tab, \<open>no disk\<close>, a space, U+20AC, a carriage return and a newline.
\<close>

definition noisy_host :: env where
  "noisy_host =
     fine_host\<lparr>exit_status_of := (\<lambda>h. 3),
       bytes_of :=
         (\<lambda>h. if last h = ReadStdout
              then [0x20, 0x20, 0x63, 0x61, 0x66, 0xC3, 0xA9, 0x0A]
              else [0x09, 0x6E, 0x6F, 0x20, 0x64, 0x69, 0x73, 0x6B, 0x20, 0xE2, 0x82, 0xAC,
                    0x0D, 0x0A])\<rparr>"

text \<open>A host where every call returns and the command prints the single byte FF.\<close>

definition binary_host :: env where
  "binary_host = fine_host\<lparr>bytes_of := (\<lambda>h. [0xFF])\<rparr>"




section \<open>Properties\<close>

subsection \<open>What connect does\<close>

lemma connect_active:
  "session_active s \<Longrightarrow>
   connect E s = (log_to INFO (''Already connected to '' @ host s @ ''. Reusing the connection.'') s, Inr ())"
  by (simp add: connect_def)

lemma client_connect_Inr:
  "client_connect E s cred = (s', Inr u) \<Longrightarrow> session_active s'"
  by (auto simp: client_connect_def session_active_def Let_def split: option.splits)

lemma connect_try_Inr:
  "connect_try E s = (s', Inr u) \<Longrightarrow> session_active s'"
  by (auto simp: connect_try_def Let_def session_active_def log_to_def
      dest!: client_connect_Inr split: if_splits option.splits prod.splits sum.splits)

lemma connect_Inr_active:
  "connect E s = (s', Inr u) \<Longrightarrow> session_active s'"
  by (auto simp: connect_def session_active_def log_to_def dest!: connect_try_Inr split: if_splits prod.splits sum.splits)

lemma close_Inr: "snd (close E s) = Inr ()"
  by (simp add: close_def Let_def split: option.splits)

lemma close_client: "client (fst (close E s)) = None"
  by (simp add: close_def Let_def split: option.splits)

lemma connect_calls:
  "\<not> session_active s \<Longrightarrow>
   lib_calls (fst (connect E s)) =
     lib_calls s @ [NewClient, SetPolicy AutoAddPolicy] @
       (if provided (password s) then
          [Connect AutoAddPolicy
             \<lparr>hostname = host s, username = user s, auth = Password (the (password s)),
              conn_port = port s, conn_timeout = 10\<rparr>]
        else if provided (key_path s) then
          LoadKey (the (key_path s)) #
            (if raises E (lib_calls s @ [NewClient, SetPolicy AutoAddPolicy,
                                         LoadKey (the (key_path s))]) = None
             then [Connect AutoAddPolicy
                     \<lparr>hostname = host s, username = user s, auth = PKey (the (key_path s)),
                      conn_port = port s, conn_timeout = 10\<rparr>]
             else [])
        else [])"
  by (simp add: connect_def connect_try_def client_connect_def the_connect_args_def
      connect_except_def new_paramiko_client_def call_def log_to_def Let_def
      split: option.splits)

lemma connect_result:
  "\<not> session_active s \<Longrightarrow>
   snd (connect E s) =
     (if provided (password s) then
        (case raises E (lib_calls s @ [NewClient, SetPolicy AutoAddPolicy,
                 Connect AutoAddPolicy (the_connect_args s (Password (the (password s))))]) of
           None \<Rightarrow> Inr () | Some e \<Rightarrow> Inl e)
      else if provided (key_path s) then
        (case raises E (lib_calls s @ [NewClient, SetPolicy AutoAddPolicy,
                                       LoadKey (the (key_path s))]) of
           Some e \<Rightarrow> Inl e
         | None \<Rightarrow>
            (case raises E (lib_calls s @ [NewClient, SetPolicy AutoAddPolicy,
                     LoadKey (the (key_path s)),
                     Connect AutoAddPolicy (the_connect_args s (PKey (the (key_path s))))]) of
               None \<Rightarrow> Inr () | Some e \<Rightarrow> Inl e))
      else Inl (Exn ValueError
                  ''Either password or key_path must be provided for SSH connection.''))"
  by (simp add: connect_def connect_try_def client_connect_def the_connect_args_def
      connect_except_def new_paramiko_client_def call_def log_to_def Let_def
      split: option.splits)

lemma connect_config:
  "host (fst (connect E s)) = host s \<and> user (fst (connect E s)) = user s \<and>
   password (fst (connect E s)) = password s \<and> key_path (fst (connect E s)) = key_path s \<and>
   port (fst (connect E s)) = port s"
  by (simp add: connect_def connect_try_def client_connect_def the_connect_args_def
      connect_except_def new_paramiko_client_def call_def log_to_def Let_def
      split: option.splits)

text \<open>\<open>connect\<close> on the handles and hosts above.\<close>

lemma connect_fine_password:
  "connect fine_host handle_password =
     (\<lparr>host = ''h'', user = ''u'', password = Some ''p'', key_path = None, port = 22,
       logger = [(INFO, ''Successfully connected to h on port 22'')],
       client = Some \<lparr>policy = AutoAddPolicy, transport = Some True\<rparr>,
       lib_calls = [NewClient, SetPolicy AutoAddPolicy,
         Connect AutoAddPolicy
           \<lparr>hostname = ''h'', username = ''u'', auth = Password ''p'',
            conn_port = 22, conn_timeout = 10\<rparr>]\<rparr>, Inr ())"
  by (simp add: connect_def connect_try_def client_connect_def the_connect_args_def
      new_paramiko_client_def call_def log_to_def Let_def session_active_def
      handle_password_def init_def fine_host_def str_int_def digit_char_def)

lemma connect_bare:
  "connect E handle_bare =
     (\<lparr>host = ''h'', user = ''u'', password = None, key_path = None, port = 22,
       logger = [(ERROR, ''Unexpected error while connecting to h: Either password or key_path must be provided for SSH connection.'')],
       client = Some \<lparr>policy = AutoAddPolicy, transport = None\<rparr>,
       lib_calls = [NewClient, SetPolicy AutoAddPolicy]\<rparr>,
      Inl (Exn ValueError ''Either password or key_path must be provided for SSH connection.''))"
  by (simp add: connect_def connect_try_def connect_except_def is_SSHException_def
      is_AuthenticationException_def
      new_paramiko_client_def call_def log_to_def Let_def session_active_def
      handle_bare_def init_def)

lemma connect_rejected:
  "connect rejecting_host handle_password =
     (\<lparr>host = ''h'', user = ''u'', password = Some ''p'', key_path = None, port = 22,
       logger = [(ERROR, ''Authentication failed for h. Check credentials or key file.'')],
       client = Some \<lparr>policy = AutoAddPolicy, transport = Some True\<rparr>,
       lib_calls = [NewClient, SetPolicy AutoAddPolicy,
         Connect AutoAddPolicy
           \<lparr>hostname = ''h'', username = ''u'', auth = Password ''p'',
            conn_port = 22, conn_timeout = 10\<rparr>]\<rparr>,
      Inl (Exn AuthenticationException ''Authentication failed.''))"
  by (simp add: connect_def connect_try_def client_connect_def the_connect_args_def
      connect_except_def is_AuthenticationException_def
      new_paramiko_client_def call_def log_to_def Let_def session_active_def
      handle_password_def init_def fine_host_def rejecting_host_def)

subsection \<open>An active session is reused\<close>

text \<open>
  Claim C4. On a handle whose stored client has an active transport, \<open>connect\<close> writes one
  INFO record and returns: it makes no library call and changes neither the stored client
  nor anything else of the handle. Hence a second \<open>connect\<close> right after one that
  returned makes no library call: the network setup is done once.
\<close>

theorem connect_reuses_active_session:
  "(session_active s \<longrightarrow>
      connect E s =
        (s\<lparr>logger := logger s @
              [(INFO, ''Already connected to '' @ host s @ ''. Reusing the connection.'')]\<rparr>,
         Inr ()))
   \<and> (snd (connect E s) = Inr () \<longrightarrow>
        snd (connect E (fst (connect E s))) = Inr () \<and>
        lib_calls (fst (connect E (fst (connect E s)))) = lib_calls (fst (connect E s)) \<and>
        client (fst (connect E (fst (connect E s)))) = client (fst (connect E s)))"
proof (intro conjI impI)
  assume "session_active s"
  then show "connect E s =
        (s\<lparr>logger := logger s @
              [(INFO, ''Already connected to '' @ host s @ ''. Reusing the connection.'')]\<rparr>,
         Inr ())"
    by (simp add: connect_active log_to_def)
next
  assume ok: "snd (connect E s) = Inr ()"
  then have act: "session_active (fst (connect E s))"
    using connect_Inr_active [of E s "fst (connect E s)" "()"] by (simp add: prod_eq_iff)
  show "snd (connect E (fst (connect E s))) = Inr ()"
    using act by (simp add: connect_active)
  show "lib_calls (fst (connect E (fst (connect E s)))) = lib_calls (fst (connect E s))"
    using act by (simp add: connect_active log_to_def)
  show "client (fst (connect E (fst (connect E s)))) = client (fst (connect E s))"
    using act by (simp add: connect_active log_to_def)
qed

theorem connect_reuses_active_session_witness:
  "snd (connect fine_host handle_password) = Inr () \<and>
   session_active (fst (connect fine_host handle_password)) \<and>
   lib_calls (fst (connect fine_host (fst (connect fine_host handle_password)))) =
     [NewClient, SetPolicy AutoAddPolicy,
      Connect AutoAddPolicy
        \<lparr>hostname = ''h'', username = ''u'', auth = Password ''p'',
         conn_port = 22, conn_timeout = 10\<rparr>] \<and>
   logger (fst (connect fine_host (fst (connect fine_host handle_password)))) =
     [(INFO, ''Successfully connected to h on port 22''),
      (INFO, ''Already connected to h. Reusing the connection.'')]"
proof -
  have c: "connect fine_host handle_password =
     (\<lparr>host = ''h'', user = ''u'', password = Some ''p'', key_path = None, port = 22,
       logger = [(INFO, ''Successfully connected to h on port 22'')],
       client = Some \<lparr>policy = AutoAddPolicy, transport = Some True\<rparr>,
       lib_calls = [NewClient, SetPolicy AutoAddPolicy,
         Connect AutoAddPolicy
           \<lparr>hostname = ''h'', username = ''u'', auth = Password ''p'',
            conn_port = 22, conn_timeout = 10\<rparr>]\<rparr>, Inr ())"
    by (simp add: connect_def connect_try_def client_connect_def the_connect_args_def
        new_paramiko_client_def call_def log_to_def Let_def session_active_def
        handle_password_def init_def fine_host_def str_int_def digit_char_def)
  show ?thesis
    using connect_reuses_active_session [of "fst (connect fine_host handle_password)" fine_host]
      connect_reuses_active_session [of handle_password fine_host]
    by (simp add: c session_active_def)
qed

subsection \<open>close\<close>

text \<open>
  Claim C5. \<open>close\<close> never raises and always leaves the stored client unset, so that
  \<open>is_connected\<close> is \<open>False\<close> afterwards. Without a stored client it does nothing;
  with one it calls the client's \<open>close\<close> and writes an INFO record when that call returns,
  an ERROR record when it raises.
\<close>

theorem close_clears_session:
  "snd (close E s) = Inr () \<and>
   client (fst (close E s)) = None \<and>
   is_connected (fst (close E s)) = PyBool False \<and>
   (client s = None \<longrightarrow> fst (close E s) = s) \<and>
   (client s \<noteq> None \<longrightarrow>
      lib_calls (fst (close E s)) = lib_calls s @ [CloseClient] \<and>
      logger (fst (close E s)) = logger s @
        [case raises E (lib_calls s @ [CloseClient]) of
           None \<Rightarrow> (INFO, ''SSH connection closed for '' @ host s)
         | Some e \<Rightarrow> (ERROR, ''Error while closing SSH connection to '' @ host s @ '': ''
                              @ str_exn e)])"
  by (simp add: close_def is_connected_def call_def log_to_def Let_def split: option.splits)

theorem close_clears_session_witness:
  "client (fst (connect fine_host handle_password)) \<noteq> None \<and>
   client handle_bare = None \<and>
   close fine_host handle_bare = (handle_bare, Inr ()) \<and>
   is_connected (fst (close fine_host (fst (connect fine_host handle_password)))) = PyBool False \<and>
   lib_calls (fst (close fine_host (fst (connect fine_host handle_password)))) =
     lib_calls (fst (connect fine_host handle_password)) @ [CloseClient] \<and>
   logger (fst (close fine_host (fst (connect fine_host handle_password)))) =
     [(INFO, ''Successfully connected to h on port 22''),
      (INFO, ''SSH connection closed for h'')]"
proof -
  have bare: "client handle_bare = None"
    by (simp add: handle_bare_def init_def)
  have conn: "client (fst (connect fine_host handle_password)) \<noteq> None"
    by (simp add: connect_fine_password)
  have quiet: "raises fine_host h = None" for h
    by (simp add: fine_host_def)
  have "close fine_host handle_bare = (handle_bare, Inr ())"
    using close_clears_session [of fine_host handle_bare] bare
    by (simp add: prod_eq_iff)
  moreover have "is_connected (fst (close fine_host (fst (connect fine_host handle_password))))
      = PyBool False"
    using close_clears_session [of fine_host "fst (connect fine_host handle_password)"]
    by blast
  moreover have "lib_calls (fst (close fine_host (fst (connect fine_host handle_password)))) =
     lib_calls (fst (connect fine_host handle_password)) @ [CloseClient]"
    using close_clears_session [of fine_host "fst (connect fine_host handle_password)"] conn
    by blast
  moreover have "logger (fst (close fine_host (fst (connect fine_host handle_password)))) =
     [(INFO, ''Successfully connected to h on port 22''),
      (INFO, ''SSH connection closed for h'')]"
    using close_clears_session [of fine_host "fst (connect fine_host handle_password)"] conn
    by (simp add: quiet) (simp add: connect_fine_password)
  ultimately show ?thesis
    using bare conn by blast
qed

subsection \<open>The credentials\<close>

text \<open>
  Claim C2, as stated: with both a password and a key path set, and with neither set,
  \<open>connect\<close> fails with a configuration error. It does not hold for both: on a host that
  accepts the connection, \<open>connect\<close> on a handle with both returns normally.
\<close>

theorem connect_both_credentials_counterexample:
  "provided (password handle_both) \<and> provided (key_path handle_both) \<and>
   snd (connect fine_host handle_both) = Inr ()"
  by (simp add: connect_def connect_try_def client_connect_def the_connect_args_def
      new_paramiko_client_def call_def log_to_def Let_def session_active_def
      handle_both_def init_def fine_host_def)

text \<open>
  Claim C2, amended. \<open>connect\<close> on a handle without an active session raises the
  \<open>ValueError\<close> of the source when neither the password nor the key path is provided
  (\<open>None\<close> or empty). When both are provided there is no configuration error: the
  outcome is the outcome of the library's \<open>connect\<close> with the password.
\<close>

theorem connect_credentials:
  "\<not> session_active s \<Longrightarrow>
   (\<not> provided (password s) \<and> \<not> provided (key_path s) \<longrightarrow>
      snd (connect E s) =
        Inl (Exn ValueError ''Either password or key_path must be provided for SSH connection.''))
   \<and> (provided (password s) \<and> provided (key_path s) \<longrightarrow>
        snd (connect E s) =
          (case raises E (lib_calls s @ [NewClient, SetPolicy AutoAddPolicy,
                   Connect AutoAddPolicy
                     \<lparr>hostname = host s, username = user s,
                      auth = Password (the (password s)),
                      conn_port = port s, conn_timeout = 10\<rparr>]) of
             None \<Rightarrow> Inr ()
           | Some e \<Rightarrow> Inl e))"
  by (simp add: connect_result the_connect_args_def)

theorem connect_credentials_witness:
  "\<not> session_active handle_bare \<and> \<not> session_active handle_both \<and>
   \<not> provided (password handle_bare) \<and> \<not> provided (key_path handle_bare) \<and>
   provided (password handle_both) \<and> provided (key_path handle_both) \<and>
   snd (connect fine_host handle_bare) =
     Inl (Exn ValueError ''Either password or key_path must be provided for SSH connection.'') \<and>
   snd (connect rejecting_host handle_both) =
     Inl (Exn AuthenticationException ''Authentication failed.'') \<and>
   snd (connect fine_host handle_both) = Inr ()"
  using connect_credentials [of handle_bare fine_host]
    connect_credentials [of handle_both rejecting_host]
    connect_credentials [of handle_both fine_host]
  by (simp add: session_active_def handle_bare_def handle_both_def init_def fine_host_def
      rejecting_host_def)

subsection \<open>A connect that fails\<close>

text \<open>
  Claim C3. After a \<open>connect\<close> that fails the stored session handle should still be
  unset and \<open>is_connected\<close> false. The error is indeed logged and raised to the caller,
  but \<open>self.client\<close> is assigned the new paramiko client before anything can fail and no
  \<open>except\<close> clause resets it, as the \<open>finally\<close> of \<open>close\<close> does. On a host that
  rejects the password the handle, never connected before, raises
  \<open>AuthenticationException\<close> and then holds the client with the transport the library
  opened: \<open>is_connected\<close> is \<open>True\<close>, and a second \<open>connect\<close> finds an active session,
  returns normally and calls nothing. On a handle without credentials \<open>connect\<close> raises
  \<open>ValueError\<close> and leaves a client without transport stored.
\<close>

theorem connect_failure_keeps_client:
  "client handle_password = None \<and>
   is_connected handle_password = PyBool False \<and>
   snd (connect rejecting_host handle_password) =
     Inl (Exn AuthenticationException ''Authentication failed.'') \<and>
   logger (fst (connect rejecting_host handle_password)) =
     [(ERROR, ''Authentication failed for h. Check credentials or key file.'')] \<and>
   client (fst (connect rejecting_host handle_password)) =
     Some \<lparr>policy = AutoAddPolicy, transport = Some True\<rparr> \<and>
   is_connected (fst (connect rejecting_host handle_password)) = PyBool True \<and>
   snd (connect rejecting_host (fst (connect rejecting_host handle_password))) = Inr () \<and>
   lib_calls (fst (connect rejecting_host (fst (connect rejecting_host handle_password)))) =
     lib_calls (fst (connect rejecting_host handle_password)) \<and>
   client handle_bare = None \<and>
   snd (connect rejecting_host handle_bare) =
     Inl (Exn ValueError ''Either password or key_path must be provided for SSH connection.'') \<and>
   client (fst (connect rejecting_host handle_bare)) =
     Some \<lparr>policy = AutoAddPolicy, transport = None\<rparr>"
proof -
  have a: "session_active (fst (connect rejecting_host handle_password))"
    by (simp add: connect_rejected session_active_def)
  have 1: "client handle_password = None" "is_connected handle_password = PyBool False"
    by (simp_all add: handle_password_def init_def is_connected_def)
  have 2: "snd (connect rejecting_host handle_password) =
     Inl (Exn AuthenticationException ''Authentication failed.'')"
    "logger (fst (connect rejecting_host handle_password)) =
     [(ERROR, ''Authentication failed for h. Check credentials or key file.'')]"
    "client (fst (connect rejecting_host handle_password)) =
     Some \<lparr>policy = AutoAddPolicy, transport = Some True\<rparr>"
    "is_connected (fst (connect rejecting_host handle_password)) = PyBool True"
    by (simp_all add: connect_rejected is_connected_def)
  have 3: "snd (connect rejecting_host (fst (connect rejecting_host handle_password))) = Inr ()"
    "lib_calls (fst (connect rejecting_host (fst (connect rejecting_host handle_password)))) =
     lib_calls (fst (connect rejecting_host handle_password))"
    by (simp_all add: connect_active [OF a] log_to_def)
  have 4: "client handle_bare = None"
    "snd (connect rejecting_host handle_bare) =
     Inl (Exn ValueError ''Either password or key_path must be provided for SSH connection.'')"
    "client (fst (connect rejecting_host handle_bare)) =
     Some \<lparr>policy = AutoAddPolicy, transport = None\<rparr>"
    by (simp_all add: connect_bare) (simp add: handle_bare_def init_def)
  from 1 2 3 4 show ?thesis by blast
qed

subsection \<open>is\_connected\<close>

text \<open>
  Claim C9. \<open>is_connected\<close> is documented to return \<open>True\<close> or \<open>False\<close>. With a stored
  client that has no transport the \<open>and\<close> chain stops at \<open>get_transport()\<close> and its
  value is \<open>None\<close>, not \<open>False\<close>. Such a handle is what a failed \<open>connect\<close> leaves:
  here the one without credentials.
\<close>

theorem is_connected_not_boolean:
  "snd (connect fine_host handle_bare) =
     Inl (Exn ValueError ''Either password or key_path must be provided for SSH connection.'') \<and>
   client (fst (connect fine_host handle_bare)) =
     Some \<lparr>policy = AutoAddPolicy, transport = None\<rparr> \<and>
   is_connected (fst (connect fine_host handle_bare)) = PyNone"
  by (simp add: connect_bare is_connected_def)

subsection \<open>Opening a session\<close>

text \<open>
  Claim C8. A \<open>connect\<close> that opens a session creates a client, sets the policy that
  accepts any unknown host key, and calls the library's \<open>connect\<close> on that client for
  the stored host, user and port with a timeout of 10 seconds: with the password when one
  is provided, else with the private key loaded from the key path (no \<open>connect\<close> when
  loading the key raises). A password or key path counts as provided when it is true as
  a condition: neither \<open>None\<close> nor empty.
\<close>

theorem connect_opens_session:
  "\<not> session_active s \<Longrightarrow>
   lib_calls (fst (connect E s)) =
     lib_calls s @ [NewClient, SetPolicy AutoAddPolicy] @
       (if provided (password s) then
          [Connect AutoAddPolicy
             \<lparr>hostname = host s, username = user s, auth = Password (the (password s)),
              conn_port = port s, conn_timeout = 10\<rparr>]
        else if provided (key_path s) then
          LoadKey (the (key_path s)) #
            (if raises E (lib_calls s @ [NewClient, SetPolicy AutoAddPolicy,
                                         LoadKey (the (key_path s))]) = None
             then [Connect AutoAddPolicy
                     \<lparr>hostname = host s, username = user s, auth = PKey (the (key_path s)),
                      conn_port = port s, conn_timeout = 10\<rparr>]
             else [])
        else [])"
  by (rule connect_calls)

theorem connect_opens_session_witness:
  "\<not> session_active handle_key \<and> \<not> session_active handle_password \<and>
   lib_calls (fst (connect fine_host handle_key)) =
     [NewClient, SetPolicy AutoAddPolicy, LoadKey ''/k'',
      Connect AutoAddPolicy
        \<lparr>hostname = ''h'', username = ''u'', auth = PKey ''/k'',
         conn_port = 22, conn_timeout = 10\<rparr>] \<and>
   lib_calls (fst (connect fine_host handle_password)) =
     [NewClient, SetPolicy AutoAddPolicy,
      Connect AutoAddPolicy
        \<lparr>hostname = ''h'', username = ''u'', auth = Password ''p'',
         conn_port = 22, conn_timeout = 10\<rparr>]"
  using connect_opens_session [of handle_key fine_host]
    connect_opens_session [of handle_password fine_host]
  by (simp add: session_active_def handle_key_def handle_password_def init_def fine_host_def)

text \<open>
  Claim C10. With both a password and a key path provided, \<open>connect\<close> never loads the key
  file, and when it opens a session it authenticates with the password.
\<close>

theorem connect_password_precedence:
  "provided (password s) \<Longrightarrow> provided (key_path s) \<Longrightarrow>
   (\<forall>k. LoadKey k \<notin> set (drop (length (lib_calls s)) (lib_calls (fst (connect E s)))))
   \<and> (\<not> session_active s \<longrightarrow>
        drop (length (lib_calls s)) (lib_calls (fst (connect E s))) =
          [NewClient, SetPolicy AutoAddPolicy,
           Connect AutoAddPolicy
             \<lparr>hostname = host s, username = user s, auth = Password (the (password s)),
              conn_port = port s, conn_timeout = 10\<rparr>])"
proof (cases "session_active s")
  case True
  then show ?thesis by (simp add: connect_active log_to_def)
next
  case False
  assume "provided (password s)"
  with False show ?thesis by (simp add: connect_calls)
qed

theorem connect_password_precedence_witness:
  "provided (password handle_both) \<and> provided (key_path handle_both) \<and>
   \<not> session_active handle_both \<and>
   LoadKey ''/k'' \<notin> set (lib_calls (fst (connect fine_host handle_both))) \<and>
   lib_calls (fst (connect fine_host handle_both)) =
     [NewClient, SetPolicy AutoAddPolicy,
      Connect AutoAddPolicy
        \<lparr>hostname = ''h'', username = ''u'', auth = Password ''p'',
         conn_port = 22, conn_timeout = 10\<rparr>]"
  using connect_password_precedence [of handle_both fine_host]
  by (simp add: session_active_def handle_both_def init_def)

subsection \<open>What execute\_command does\<close>

text \<open>
  The four ways through \<open>execute_command\<close>: the implicit \<open>connect\<close> raises; the command
  completes; the attempt raises an \<open>SSHException\<close>; the attempt raises anything else.
\<close>

lemma implicit_connect_Inr:
  "implicit_connect E s = (s1, Inr u) \<Longrightarrow> session_active s1"
  by (auto simp: implicit_connect_def dest: connect_Inr_active split: if_splits)

lemma implicit_connect_active:
  "session_active s \<Longrightarrow> implicit_connect E s = (s, Inr ())"
  by (simp add: implicit_connect_def)


lemma execute_command_returns:
  "implicit_connect E s = (s1, Inr u) \<Longrightarrow> execute_try E s1 command timeout = (s2, Inr r) \<Longrightarrow>
   execute_command E s command timeout = Some (s2, Inr r)"
  by (subst execute_command.simps) simp



lemma execute_try_completes:
  assumes "client s \<noteq> None"
    and "raises E (lib_calls s @ [ExecCommand command timeout]) = None"
    and "raises E (lib_calls s @ [ExecCommand command timeout, RecvExitStatus]) = None"
    and "raises E (lib_calls s @ [ExecCommand command timeout, RecvExitStatus, ReadStdout]) = None"
    and "raises E (lib_calls s @ [ExecCommand command timeout, RecvExitStatus, ReadStdout,
                                  ReadStderr]) = None"
    and "decode (bytes_of E (lib_calls s @ [ExecCommand command timeout, RecvExitStatus,
                                            ReadStdout])) = Inr out"
    and "decode (bytes_of E (lib_calls s @ [ExecCommand command timeout, RecvExitStatus,
                                            ReadStdout, ReadStderr])) = Inr err"
  shows "execute_try E s command timeout =
     (s\<lparr>lib_calls := lib_calls s @ [ExecCommand command timeout, RecvExitStatus, ReadStdout,
                                     ReadStderr],
        logger := logger s @
          [if exit_status_of E (lib_calls s @ [ExecCommand command timeout, RecvExitStatus]) = 0
           then (INFO, ''Command executed successfully on '' @ host s @ '': '' @ command)
           else (WARNING, ''Command execution failed on '' @ host s @ '' with exit status ''
                   @ str_int (exit_status_of E (lib_calls s @ [ExecCommand command timeout,
                                                               RecvExitStatus])))]\<rparr>,
      Inr (strip out, strip err,
           exit_status_of E (lib_calls s @ [ExecCommand command timeout, RecvExitStatus])))"
  using assms
  by (auto simp: execute_try_def call_def log_to_def Let_def)


lemma session_active_client: "session_active s \<Longrightarrow> client s \<noteq> None"
  by (auto simp: session_active_def split: option.splits)






subsection \<open>The implicit connect\<close>



subsection \<open>Failures of the command\<close>

text \<open>
  The recovery of \<open>execute_command\<close> on a host where the library's \<open>connect\<close> and
  key loading always return: it always reaches the recursive call. Where, in addition,
  every \<open>exec_command\<close> raises an exception that is not an \<open>SSHException\<close>, no call of
  \<open>execute_command\<close> on a handle with credentials returns.
\<close>

lemma close_config:
  "host (fst (close E s)) = host s \<and> user (fst (close E s)) = user s \<and>
   password (fst (close E s)) = password s \<and> key_path (fst (close E s)) = key_path s \<and>
   port (fst (close E s)) = port s"
  by (simp add: close_def call_def log_to_def Let_def split: option.splits)

lemma close_not_active: "\<not> session_active (fst (close E s))"
  by (simp add: session_active_def close_client)

lemma connect_returns:
  assumes "\<not> session_active s"
    and "\<And>h p a. raises E (h @ [Connect p a]) = None"
    and "\<And>h k. raises E (h @ [LoadKey k]) = None"
    and "provided (password s) \<or> provided (key_path s)"
  shows "snd (connect E s) = Inr ()"
proof -
  have 1: "raises E (lib_calls s @ [NewClient, SetPolicy AutoAddPolicy, Connect p a]) = None"
    for p a
    using assms(2) [of "lib_calls s @ [NewClient, SetPolicy AutoAddPolicy]" p a] by simp
  have 2: "raises E (lib_calls s @ [NewClient, SetPolicy AutoAddPolicy, LoadKey k]) = None"
    for k
    using assms(3) [of "lib_calls s @ [NewClient, SetPolicy AutoAddPolicy]" k] by simp
  have 3: "raises E (lib_calls s @ [NewClient, SetPolicy AutoAddPolicy, LoadKey k,
      Connect p a]) = None" for k p a
    using assms(2) [of "lib_calls s @ [NewClient, SetPolicy AutoAddPolicy, LoadKey k]" p a]
    by simp
  show ?thesis
    using assms(1,4) by (auto simp: connect_result 1 2 3)
qed

lemma recover_eq:
  "recover E s e =
     connect E (fst (close E (log_to ERROR (''Error executing command on '' @ host s @ '': ''
                                            @ str_exn e) s)))"
proof -
  obtain s1 r where c: "close E (log_to ERROR (''Error executing command on '' @ host s
      @ '': '' @ str_exn e) s) = (s1, r)"
    by (cases "close E (log_to ERROR (''Error executing command on '' @ host s
      @ '': '' @ str_exn e) s)")
  with close_Inr [of E "log_to ERROR (''Error executing command on '' @ host s
      @ '': '' @ str_exn e) s"]
  have "r = Inr ()" by simp
  with c show ?thesis by (simp add: recover_def)
qed

lemma log_to_config:
  "password (log_to l m s) = password s \<and> key_path (log_to l m s) = key_path s"
  by (simp add: log_to_def)

lemma call_config:
  "password (call c s) = password s \<and> key_path (call c s) = key_path s \<and>
   client (call c s) = client s \<and> lib_calls (call c s) = lib_calls s @ [c]"
  by (simp add: call_def)

lemma implicit_connect_returns:
  assumes "\<And>h p a. raises E (h @ [Connect p a]) = None"
    and "\<And>h k. raises E (h @ [LoadKey k]) = None"
    and "provided (password s) \<or> provided (key_path s)"
  shows "\<exists>s1. implicit_connect E s = (s1, Inr ()) \<and> session_active s1 \<and>
              password s1 = password s \<and> key_path s1 = key_path s"
proof (cases "session_active s")
  case True
  then show ?thesis by (simp add: implicit_connect_active)
next
  case False
  then have "snd (connect E s) = Inr ()"
    using assms by (intro connect_returns) auto
  then have c: "connect E s = (fst (connect E s), Inr ())"
    by (simp add: prod_eq_iff)
  then have "session_active (fst (connect E s))"
    by (rule connect_Inr_active)
  then have a: "session_active (fst (connect E s))" .
  from False have "implicit_connect E s = connect E s"
    by (simp add: implicit_connect_def)
  with c have i: "implicit_connect E s = (fst (connect E s), Inr ())"
    by metis
  from i a connect_config [of E s] show ?thesis
    by blast
qed

lemma recover_returns:
  assumes "\<And>h p a. raises E (h @ [Connect p a]) = None"
    and "\<And>h k. raises E (h @ [LoadKey k]) = None"
    and "provided (password s) \<or> provided (key_path s)"
  shows "\<exists>s1. recover E s e = (s1, Inr ()) \<and> password s1 = password s \<and>
              key_path s1 = key_path s"
proof -
  let ?c = "fst (close E (log_to ERROR (''Error executing command on '' @ host s @ '': ''
                                        @ str_exn e) s))"
  have cr: "provided (password ?c) \<or> provided (key_path ?c)"
    using assms(3) by (simp add: close_config log_to_config)
  have "snd (connect E ?c) = Inr ()"
    using close_not_active assms(1,2) cr by (intro connect_returns) auto
  then have "recover E s e = (fst (connect E ?c), Inr ())"
    by (simp add: recover_eq prod_eq_iff)
  then show ?thesis
    by (simp add: connect_config close_config log_to_config)
qed


lemma connect_password_returns:
  "raises E [NewClient, SetPolicy AutoAddPolicy,
             Connect AutoAddPolicy
               \<lparr>hostname = ''h'', username = ''u'', auth = Password ''p'',
                conn_port = 22, conn_timeout = 10\<rparr>] = None \<Longrightarrow>
   connect E handle_password = (handle_connected, Inr ())"
  by (simp add: connect_def connect_try_def client_connect_def the_connect_args_def
      new_paramiko_client_def call_def log_to_def Let_def session_active_def
      handle_password_def handle_connected_def init_def str_int_def digit_char_def)

lemma handle_password_not_active: "\<not> session_active handle_password"
  by (simp add: session_active_def handle_password_def init_def)

lemma handle_connected_active: "session_active handle_connected"
  by (simp add: session_active_def handle_connected_def)





subsection \<open>A command that completes\<close>

text \<open>
  What \<open>strip\<close> removes is whitespace at the two ends and nothing else; what \<open>decode\<close>
  returns encodes to the bytes it was given.
\<close>

lemma strip_trims:
  "(\<exists>a b. t = a @ strip t @ b \<and> list_all isspace a \<and> list_all isspace b) \<and>
   (strip t \<noteq> [] \<longrightarrow> \<not> isspace (hd (strip t)) \<and> \<not> isspace (last (strip t)))"
proof -
  let ?u = "dropWhile isspace t"
  let ?a = "takeWhile isspace t"
  let ?b = "rev (takeWhile isspace (rev ?u))"
  have u: "?u = strip t @ ?b"
  proof -
    have "rev (takeWhile isspace (rev ?u) @ dropWhile isspace (rev ?u)) = ?u"
      by (simp only: takeWhile_dropWhile_id rev_rev_ident)
    then have "rev (dropWhile isspace (rev ?u)) @ rev (takeWhile isspace (rev ?u)) = ?u"
      by (simp only: rev_append)
    then show ?thesis by (simp only: strip_def)
  qed
  have t: "t = ?a @ strip t @ ?b"
    using u takeWhile_dropWhile_id [of isspace t] by simp
  have a: "list_all isspace ?a"
    by (simp add: list_all_iff) (meson set_takeWhileD)
  have b: "list_all isspace ?b"
    by (simp add: list_all_iff) (meson set_takeWhileD)
  have e: "\<not> isspace (hd (strip t)) \<and> \<not> isspace (last (strip t))" if n: "strip t \<noteq> []"
  proof
    from n u have "?u \<noteq> []" by (metis append_is_Nil_conv)
    then have "\<not> isspace (hd ?u)" by (rule hd_dropWhile)
    moreover from n u have "hd ?u = hd (strip t)" by (metis hd_append2)
    ultimately show "\<not> isspace (hd (strip t))" by simp
    from n have d: "dropWhile isspace (rev ?u) \<noteq> []" by (simp add: strip_def)
    then have "\<not> isspace (hd (dropWhile isspace (rev ?u)))" by (rule hd_dropWhile)
    moreover from d have "last (strip t) = hd (dropWhile isspace (rev ?u))"
      by (simp add: strip_def last_rev)
    ultimately show "\<not> isspace (last (strip t))" by simp
  qed
  from t a b e show ?thesis by blast
qed

lemma encode_char_2:
  assumes "2 \<le> k" "k < 32" "m < 64"
  shows "encode_char (k * 64 + m) = [192 + k, 128 + m]"
proof -
  define c where "c = k * 64 + m"
  have "c div 64 = k" "c mod 64 = m" "\<not> c < 128" "c < 2048"
    using assms by (simp_all add: c_def)
  then show ?thesis
    unfolding c_def [symmetric] by (simp add: encode_char_def)
qed

lemma encode_char_3:
  assumes "k < 16" "m < 64" "n < 64" "2048 \<le> k * 4096 + m * 64 + n"
  shows "encode_char (k * 4096 + m * 64 + n) = [224 + k, 128 + m, 128 + n]"
proof -
  define c where "c = k * 4096 + m * 64 + n"
  have "c div 64 = k * 64 + m"
    using assms by (simp add: c_def)
  moreover have "c div 4096 = k"
    using assms by (simp add: c_def)
  moreover have "(k * 64 + m) mod 64 = m"
    using assms by simp
  moreover have "c mod 64 = n"
  proof -
    have "c = (k * 64 + m) * 64 + n" by (simp add: c_def)
    then show ?thesis using assms by (simp only: mod_mult_self3 mod_less)
  qed
  moreover have "\<not> c < 2048" "c < 65536"
    using assms by (simp_all add: c_def)
  ultimately show ?thesis
    unfolding c_def [symmetric] by (simp add: encode_char_def)
qed

lemma encode_char_4:
  assumes "k < 5" "m < 64" "n < 64" "p < 64" "65536 \<le> k * 262144 + m * 4096 + n * 64 + p"
  shows "encode_char (k * 262144 + m * 4096 + n * 64 + p) = [240 + k, 128 + m, 128 + n, 128 + p]"
proof -
  define c where "c = k * 262144 + m * 4096 + n * 64 + p"
  have "c div 64 = k * 4096 + m * 64 + n"
    using assms by (simp add: c_def)
  moreover have "c div 4096 = k * 64 + m"
    using assms by (simp add: c_def)
  moreover have "c div 262144 = k"
    using assms by (simp add: c_def)
  moreover have "(k * 4096 + m * 64 + n) mod 64 = n"
  proof -
    have "k * 4096 + m * 64 + n = (k * 64 + m) * 64 + n" by simp
    then show ?thesis using assms by (simp only: mod_mult_self3 mod_less)
  qed
  moreover have "(k * 64 + m) mod 64 = m"
    using assms by simp
  moreover have "c mod 64 = p"
  proof -
    have "c = (k * 4096 + m * 64 + n) * 64 + p" by (simp add: c_def)
    then show ?thesis using assms by (simp only: mod_mult_self3 mod_less)
  qed
  moreover have "\<not> c < 65536"
    using assms by (simp_all add: c_def)
  ultimately show ?thesis
    unfolding c_def [symmetric] by (simp add: encode_char_def)
qed

lemma utf8_encode: "utf8 bs = Some t \<Longrightarrow> concat (map encode_char t) = bs"
proof (induction bs arbitrary: t rule: utf8.induct)
  case 1
  then show ?case by simp
next
  case (2 b0 bs)
  show ?case
  proof (cases "b0 < 128")
    case True
    with "2.prems" "2.IH"(1) show ?thesis by (auto simp: encode_char_def)
  next
    case n1: False
    show ?thesis
    proof (cases "194 \<le> b0 \<and> b0 < 224")
      case True
      with n1 "2.prems" obtain b1 r t' where bs: "bs = b1 # r" and c: "continuation b1"
        and r: "utf8 r = Some t'" and t: "t = ((b0 - 192) * 64 + (b1 - 128)) # t'"
        by (auto split: list.splits if_splits)
      from "2.IH"(2) n1 True bs c r have "concat (map encode_char t') = r" by blast
      moreover have "encode_char ((b0 - 192) * 64 + (b1 - 128)) = [b0, b1]"
      proof -
        have "encode_char ((b0 - 192) * 64 + (b1 - 128)) = [192 + (b0 - 192), 128 + (b1 - 128)]"
          using True c by (intro encode_char_2) (auto simp: continuation_def)
        also have "\<dots> = [b0, b1]"
          using True c by (simp add: continuation_def)
        finally show ?thesis .
      qed
      ultimately show ?thesis using bs t by simp
    next
      case n2: False
      show ?thesis
      proof (cases "224 \<le> b0 \<and> b0 < 240")
        case True
        with n1 n2 "2.prems" obtain b1 b2 r t' where bs: "bs = b1 # b2 # r"
          and c: "(if b0 = 224 then 160 else 128) \<le> b1 \<and>
                b1 < (if b0 = 237 then 160 else 192) \<and> continuation b2"
          and r: "utf8 r = Some t'"
          and t: "t = ((b0 - 224) * 4096 + (b1 - 128) * 64 + (b2 - 128)) # t'"
          by (auto split: list.splits if_splits)
        from "2.IH"(3) n1 n2 True bs c r have "concat (map encode_char t') = r" by blast
        moreover
        have "encode_char ((b0 - 224) * 4096 + (b1 - 128) * 64 + (b2 - 128)) = [b0, b1, b2]"
        proof -
          have "encode_char ((b0 - 224) * 4096 + (b1 - 128) * 64 + (b2 - 128)) =
              [224 + (b0 - 224), 128 + (b1 - 128), 128 + (b2 - 128)]"
            using True c by (intro encode_char_3) (auto simp: continuation_def split: if_splits)
          also have "\<dots> = [b0, b1, b2]"
            using True c by (auto simp: continuation_def split: if_splits)
          finally show ?thesis .
        qed
        ultimately show ?thesis using bs t by simp
      next
        case n3: False
        with n1 n2 "2.prems" obtain b1 b2 b3 r t' where bs: "bs = b1 # b2 # b3 # r"
          and b0: "240 \<le> b0 \<and> b0 < 245"
          and c: "(if b0 = 240 then 144 else 128) \<le> b1 \<and>
                b1 < (if b0 = 244 then 144 else 192) \<and>
                continuation b2 \<and> continuation b3"
          and r: "utf8 r = Some t'"
          and t: "t = ((b0 - 240) * 262144 + (b1 - 128) * 4096
                          + (b2 - 128) * 64 + (b3 - 128)) # t'"
          by (auto split: list.splits if_splits)
        from "2.IH"(4) n1 n2 n3 b0 bs c r have "concat (map encode_char t') = r" by blast
        moreover
        have "encode_char ((b0 - 240) * 262144 + (b1 - 128) * 4096
                          + (b2 - 128) * 64 + (b3 - 128)) = [b0, b1, b2, b3]"
        proof -
          have "encode_char ((b0 - 240) * 262144 + (b1 - 128) * 4096
                          + (b2 - 128) * 64 + (b3 - 128)) =
              [240 + (b0 - 240), 128 + (b1 - 128), 128 + (b2 - 128), 128 + (b3 - 128)]"
            using b0 c by (intro encode_char_4) (auto simp: continuation_def split: if_splits)
          also have "\<dots> = [b0, b1, b2, b3]"
            using b0 c by (auto simp: continuation_def split: if_splits)
          finally show ?thesis .
        qed
        ultimately show ?thesis using bs t by simp
      qed
    qed
  qed
qed

lemma decode_encode: "decode bs = Inr t \<Longrightarrow> concat (map encode_char t) = map unat bs"
  by (auto simp: decode_def dest: utf8_encode split: option.splits)

text \<open>
  A host where \<open>connect\<close> always returns and every attempt on a connected handle raises
  something other than an \<open>SSHException\<close>: no call on a handle with credentials returns.
\<close>

lemma retry_forever:
  assumes att: "\<And>s c t. client s \<noteq> None \<Longrightarrow>
      \<exists>s2 e. execute_try E0 s c t = (s2, Inl e) \<and> \<not> is_SSHException e \<and>
             password s2 = password s \<and> key_path s2 = key_path s"
    and co: "\<And>h p a. raises E0 (h @ [Connect p a]) = None"
    and lo: "\<And>h k. raises E0 (h @ [LoadKey k]) = None"
  shows "execute_command E s command timeout = Some y \<Longrightarrow>
         E = E0 \<longrightarrow> \<not> (provided (password s) \<or> provided (key_path s))"
proof (induction rule: execute_command.raw_induct [rotated, consumes 1, case_names step])
  case (step f F s command timeout y)
  show ?case
  proof (intro impI notI)
    assume F: "F = E0" and cr: "provided (password s) \<or> provided (key_path s)"
    from implicit_connect_returns [of E0 s, OF co lo cr]
    obtain s1 where s1: "implicit_connect E0 s = (s1, Inr ())" "session_active s1"
      "password s1 = password s" "key_path s1 = key_path s"
      by blast
    from att [OF session_active_client [OF s1(2)], of command timeout]
    obtain s2 e where t: "execute_try E0 s1 command timeout = (s2, Inl e)"
      and e: "\<not> is_SSHException e"
      and s2: "password s2 = password s1" "key_path s2 = key_path s1"
      by blast
    have "provided (password s2) \<or> provided (key_path s2)"
      using cr s1(3,4) s2 by simp
    from recover_returns [of E0 s2 e, OF co lo this]
    obtain s3 where s3: "recover E0 s2 e = (s3, Inr ())"
      "password s3 = password s2" "key_path s3 = key_path s2"
      by blast
    from step(2) F s1(1) t e s3(1)
    have "f E0 s3 command timeout = Some y"
      by simp
    from step(1) [OF this] cr s3(2,3) s2 s1(3,4) show False
      by simp
  qed
qed

lemma binary_host_raises: "raises binary_host h = None"
  by (simp add: binary_host_def fine_host_def)

lemma binary_host_bytes: "bytes_of binary_host h = [0xFF]"
  by (simp add: binary_host_def)

lemma decode_FF: "decode [0xFF] = Inl (Exn UnicodeDecodeError ''utf-8 codec cannot decode bytes'')"
  by (simp add: decode_def)

lemma binary_host_attempt:
  "client s \<noteq> None \<Longrightarrow>
   execute_try binary_host s c t =
     (call ReadStdout (call RecvExitStatus (call (ExecCommand c t) s)),
      Inl (Exn UnicodeDecodeError ''utf-8 codec cannot decode bytes''))"
  by (auto simp: execute_try_def Let_def binary_host_raises binary_host_bytes decode_FF)

lemma binary_host_never_returns:
  "provided (password s) \<or> provided (key_path s) \<Longrightarrow>
   execute_command binary_host s command timeout = None"
proof (rule ccontr)
  assume cr: "provided (password s) \<or> provided (key_path s)"
    and "execute_command binary_host s command timeout \<noteq> None"
  then obtain y where y: "execute_command binary_host s command timeout = Some y"
    by blast
  have att: "\<exists>s2 e. execute_try binary_host s' c t = (s2, Inl e) \<and> \<not> is_SSHException e \<and>
             password s2 = password s' \<and> key_path s2 = key_path s'"
    if "client s' \<noteq> None" for s' c t
    using binary_host_attempt [OF that, of c t]
    by (simp add: call_config is_SSHException_def)
  from retry_forever [of binary_host binary_host s command timeout y, OF att _ _ y] cr
  show False
    by (simp add: binary_host_raises)
qed

text \<open>
  Claim C6, as stated: every call whose remote command completes returns the triple. It
  does not when the output is not UTF-8. On a host where every library call returns, the
  exit status is 0 and stdout is the byte FF, the command completes at the first attempt;
  \<open>decode\<close> raises \<open>UnicodeDecodeError\<close> inside the \<open>try\<close>, the \<open>except Exception\<close>
  clause closes, connects and runs the command again, and so on: the call returns nothing.
\<close>

theorem execute_command_undecodable_counterexample:
  "implicit_connect binary_host handle_password = (handle_connected, Inr ()) \<and>
   raises binary_host (lib_calls handle_connected @ [ExecCommand ''cat blob'' 30]) = None \<and>
   raises binary_host (lib_calls handle_connected @
     [ExecCommand ''cat blob'' 30, RecvExitStatus]) = None \<and>
   raises binary_host (lib_calls handle_connected @
     [ExecCommand ''cat blob'' 30, RecvExitStatus, ReadStdout]) = None \<and>
   raises binary_host (lib_calls handle_connected @
     [ExecCommand ''cat blob'' 30, RecvExitStatus, ReadStdout, ReadStderr]) = None \<and>
   exit_status_of binary_host (lib_calls handle_connected @
     [ExecCommand ''cat blob'' 30, RecvExitStatus]) = 0 \<and>
   bytes_of binary_host (lib_calls handle_connected @
     [ExecCommand ''cat blob'' 30, RecvExitStatus, ReadStdout]) = [0xFF] \<and>
   execute_command binary_host handle_password ''cat blob'' 30 = None"
proof -
  have i: "implicit_connect binary_host handle_password = (handle_connected, Inr ())"
    by (simp add: implicit_connect_def handle_password_not_active connect_password_returns
        binary_host_raises)
  have x: "exit_status_of binary_host h = 0" for h
    by (simp add: binary_host_def fine_host_def)
  have "provided (password handle_password)"
    by (simp add: handle_password_def init_def)
  then have "execute_command binary_host handle_password ''cat blob'' 30 = None"
    by (intro binary_host_never_returns) simp
  with i x show ?thesis
    by (simp add: binary_host_raises binary_host_bytes)
qed

text \<open>
  Claim C6, amended. When the command completes, that is, when \<open>exec_command\<close>,
  \<open>recv_exit_status\<close> and the two \<open>read\<close> calls return, and the two streams are valid
  UTF-8, \<open>execute_command\<close> returns the triple of the decoded and stripped stdout, the
  decoded and stripped stderr and the exit status, whatever the exit status is. It writes
  one record: INFO when the exit status is 0, WARNING with the exit status otherwise. The
  decoded text of each stream encodes to the bytes read, and stripping removes whitespace
  at the two ends only and leaves none there.
\<close>

theorem execute_command_returns_triple:
  assumes "implicit_connect E s = (s1, Inr ())"
    and "raises E (lib_calls s1 @ [ExecCommand command timeout]) = None"
    and "raises E (lib_calls s1 @ [ExecCommand command timeout, RecvExitStatus]) = None"
    and "raises E (lib_calls s1 @ [ExecCommand command timeout, RecvExitStatus, ReadStdout]) = None"
    and "raises E (lib_calls s1 @ [ExecCommand command timeout, RecvExitStatus, ReadStdout,
                                   ReadStderr]) = None"
    and "decode (bytes_of E (lib_calls s1 @ [ExecCommand command timeout, RecvExitStatus,
                                             ReadStdout])) = Inr out"
    and "decode (bytes_of E (lib_calls s1 @ [ExecCommand command timeout, RecvExitStatus,
                                             ReadStdout, ReadStderr])) = Inr err"
  shows "execute_command E s command timeout =
     Some (s1\<lparr>lib_calls := lib_calls s1 @ [ExecCommand command timeout, RecvExitStatus,
                                            ReadStdout, ReadStderr],
              logger := logger s1 @
                [if exit_status_of E (lib_calls s1 @ [ExecCommand command timeout,
                                                      RecvExitStatus]) = 0
                 then (INFO, ''Command executed successfully on '' @ host s1 @ '': ''
                         @ command)
                 else (WARNING, ''Command execution failed on '' @ host s1
                         @ '' with exit status ''
                         @ str_int (exit_status_of E (lib_calls s1 @
                                      [ExecCommand command timeout, RecvExitStatus])))]\<rparr>,
           Inr (strip out, strip err,
                exit_status_of E (lib_calls s1 @ [ExecCommand command timeout,
                                                  RecvExitStatus])))
   \<and> concat (map encode_char out) =
       map unat (bytes_of E (lib_calls s1 @ [ExecCommand command timeout, RecvExitStatus,
                                             ReadStdout]))
   \<and> concat (map encode_char err) =
       map unat (bytes_of E (lib_calls s1 @ [ExecCommand command timeout, RecvExitStatus,
                                             ReadStdout, ReadStderr]))
   \<and> (\<exists>a b. out = a @ strip out @ b \<and> list_all isspace a \<and> list_all isspace b)
   \<and> (strip out \<noteq> [] \<longrightarrow> \<not> isspace (hd (strip out)) \<and> \<not> isspace (last (strip out)))
   \<and> (\<exists>a b. err = a @ strip err @ b \<and> list_all isspace a \<and> list_all isspace b)
   \<and> (strip err \<noteq> [] \<longrightarrow> \<not> isspace (hd (strip err)) \<and> \<not> isspace (last (strip err)))"
proof -
  have "client s1 \<noteq> None"
    using assms(1) by (blast dest: implicit_connect_Inr session_active_client)
  then have "execute_command E s command timeout =
     Some (s1\<lparr>lib_calls := lib_calls s1 @ [ExecCommand command timeout, RecvExitStatus,
                                            ReadStdout, ReadStderr],
              logger := logger s1 @
                [if exit_status_of E (lib_calls s1 @ [ExecCommand command timeout,
                                                      RecvExitStatus]) = 0
                 then (INFO, ''Command executed successfully on '' @ host s1 @ '': ''
                         @ command)
                 else (WARNING, ''Command execution failed on '' @ host s1
                         @ '' with exit status ''
                         @ str_int (exit_status_of E (lib_calls s1 @
                                      [ExecCommand command timeout, RecvExitStatus])))]\<rparr>,
           Inr (strip out, strip err,
                exit_status_of E (lib_calls s1 @ [ExecCommand command timeout,
                                                  RecvExitStatus])))"
    using assms execute_try_completes [of s1 E command timeout out err]
    by (simp add: execute_command_returns [OF assms(1)])
  with decode_encode [OF assms(6)] decode_encode [OF assms(7)]
    strip_trims [of out] strip_trims [of err]
  show ?thesis by blast
qed

lemma noisy_host_raises: "raises noisy_host h = None"
  by (simp add: noisy_host_def fine_host_def)

lemma noisy_host_exit: "exit_status_of noisy_host h = 3"
  by (simp add: noisy_host_def)

lemma noisy_host_stdout:
  "decode (bytes_of noisy_host (h @ [ReadStdout])) = Inr [32, 32, 99, 97, 102, 233, 10]"
  by (simp add: noisy_host_def decode_def continuation_def)

lemma noisy_host_stderr:
  "decode (bytes_of noisy_host (h @ [ReadStderr])) =
     Inr [9, 110, 111, 32, 100, 105, 115, 107, 32, 8364, 13, 10]"
  by (simp add: noisy_host_def decode_def continuation_def)

lemma strip_noisy:
  "strip [32, 32, 99, 97, 102, 233, 10] = [99, 97, 102, 233]"
  "strip [9, 110, 111, 32, 100, 105, 115, 107, 32, 8364, 13, 10] =
     [110, 111, 32, 100, 105, 115, 107, 32, 8364]"
  by (simp_all add: strip_def isspace_def)

theorem execute_command_returns_triple_witness:
  "implicit_connect noisy_host handle_password = (handle_connected, Inr ()) \<and>
   raises noisy_host (lib_calls handle_connected @ [ExecCommand ''df'' 30]) = None \<and>
   raises noisy_host (lib_calls handle_connected @ [ExecCommand ''df'' 30, RecvExitStatus])
     = None \<and>
   raises noisy_host (lib_calls handle_connected @
     [ExecCommand ''df'' 30, RecvExitStatus, ReadStdout]) = None \<and>
   raises noisy_host (lib_calls handle_connected @
     [ExecCommand ''df'' 30, RecvExitStatus, ReadStdout, ReadStderr]) = None \<and>
   bytes_of noisy_host (lib_calls handle_connected @
     [ExecCommand ''df'' 30, RecvExitStatus, ReadStdout]) =
     [0x20, 0x20, 0x63, 0x61, 0x66, 0xC3, 0xA9, 0x0A] \<and>
   decode (bytes_of noisy_host (lib_calls handle_connected @
     [ExecCommand ''df'' 30, RecvExitStatus, ReadStdout])) =
     Inr [32, 32, 99, 97, 102, 233, 10] \<and>
   decode (bytes_of noisy_host (lib_calls handle_connected @
     [ExecCommand ''df'' 30, RecvExitStatus, ReadStdout, ReadStderr])) =
     Inr [9, 110, 111, 32, 100, 105, 115, 107, 32, 8364, 13, 10] \<and>
   map_option snd (execute_command noisy_host handle_password ''df'' 30) =
     Some (Inr ([99, 97, 102, 233], [110, 111, 32, 100, 105, 115, 107, 32, 8364], 3)) \<and>
   map_option (logger \<circ> fst) (execute_command noisy_host handle_password ''df'' 30) =
     Some [(INFO, ''Successfully connected to h on port 22''),
           (WARNING, ''Command execution failed on h with exit status 3'')]"
proof -
  have i: "implicit_connect noisy_host handle_password = (handle_connected, Inr ())"
    by (simp add: implicit_connect_def handle_password_not_active connect_password_returns
        noisy_host_raises)
  have o: "decode (bytes_of noisy_host (lib_calls handle_connected @
     [ExecCommand ''df'' 30, RecvExitStatus, ReadStdout])) =
     Inr [32, 32, 99, 97, 102, 233, 10]"
    using noisy_host_stdout [of "lib_calls handle_connected @
      [ExecCommand ''df'' 30, RecvExitStatus]"] by simp
  have e: "decode (bytes_of noisy_host (lib_calls handle_connected @
     [ExecCommand ''df'' 30, RecvExitStatus, ReadStdout, ReadStderr])) =
     Inr [9, 110, 111, 32, 100, 105, 115, 107, 32, 8364, 13, 10]"
    using noisy_host_stderr [of "lib_calls handle_connected @
      [ExecCommand ''df'' 30, RecvExitStatus, ReadStdout]"] by simp
  have b: "bytes_of noisy_host (lib_calls handle_connected @
     [ExecCommand ''df'' 30, RecvExitStatus, ReadStdout]) =
     [0x20, 0x20, 0x63, 0x61, 0x66, 0xC3, 0xA9, 0x0A]"
    by (simp add: noisy_host_def)
  from execute_command_returns_triple [OF i noisy_host_raises noisy_host_raises
      noisy_host_raises noisy_host_raises o e]
  have r: "execute_command noisy_host handle_password ''df'' 30 =
     Some (handle_connected\<lparr>lib_calls := lib_calls handle_connected @
              [ExecCommand ''df'' 30, RecvExitStatus, ReadStdout, ReadStderr],
              logger := logger handle_connected @
                [if exit_status_of noisy_host (lib_calls handle_connected @
                      [ExecCommand ''df'' 30, RecvExitStatus]) = 0
                 then (INFO, ''Command executed successfully on '' @ host handle_connected
                         @ '': '' @ ''df'')
                 else (WARNING, ''Command execution failed on '' @ host handle_connected
                         @ '' with exit status ''
                         @ str_int (exit_status_of noisy_host (lib_calls handle_connected @
                                      [ExecCommand ''df'' 30, RecvExitStatus])))]\<rparr>,
           Inr (strip [32, 32, 99, 97, 102, 233, 10],
                strip [9, 110, 111, 32, 100, 105, 115, 107, 32, 8364, 13, 10],
                exit_status_of noisy_host (lib_calls handle_connected @
                  [ExecCommand ''df'' 30, RecvExitStatus])))"
    by blast
  have r1: "map_option snd (execute_command noisy_host handle_password ''df'' 30) =
     Some (Inr ([99, 97, 102, 233], [110, 111, 32, 100, 105, 115, 107, 32, 8364], 3))"
    by (simp add: r noisy_host_exit strip_noisy)
  have r2: "map_option (logger \<circ> fst) (execute_command noisy_host handle_password ''df'' 30) =
     Some [(INFO, ''Successfully connected to h on port 22''),
           (WARNING, ''Command execution failed on h with exit status 3'')]"
    by (simp add: r noisy_host_exit handle_connected_def str_int_def digit_char_def)
  from i o e b r1 r2 show ?thesis
    by (simp add: noisy_host_raises)
qed

end
